theory Spec2Isabelle
  imports Complex_Main "HOL-Library.Sublist" "HOL-Library.AList"
begin

section \<open>Python strings\<close>

text \<open>
  A Python \<open>str\<close> is modelled as a \<^typ>\<open>string\<close> whose characters are read as the code
  points U+0000 .. U+00FF, so that \<open>length\<close>, \<open>take\<close> and \<open>drop\<close> count what Python's
  \<open>len\<close> and slices count. A Python \<open>float\<close> is modelled as the real number it denotes.
\<close>

definition lower_char :: "char \<Rightarrow> char" where
  "lower_char c =
     (let n = (of_char c :: nat)
      in if (65 \<le> n \<and> n \<le> 90) \<or> (192 \<le> n \<and> n \<le> 222 \<and> n \<noteq> 215)
         then char_of (n + 32) else c)"

definition lower :: "string \<Rightarrow> string" where
  "lower s = map lower_char s"

text \<open>\<open>n in t\<close> on two strings: \<open>n\<close> occurs in \<open>t\<close> as a contiguous run.\<close>

definition str_in :: "string \<Rightarrow> string \<Rightarrow> bool" where
  "str_in n t = sublist n t"

section \<open>Deterministic fallback rules (tool\_gemini.py)\<close>

definition BUG_TRIGGERS :: "string list" where
  "BUG_TRIGGERS =
     [''crash'', ''error'', ''exception'', ''freeze'', ''not working'', ''can't login'',
      ''cannot login'', ''login issue'', ''stopped working'', ''data loss'', ''sync issue'',
      ''sync not'', ''fails to'', ''bug'']"

definition FEATURE_TRIGGERS :: "string list" where
  "FEATURE_TRIGGERS =
     [''please add'', ''would love'', ''feature request'', ''missing'', ''could you'',
      ''add support'', ''add dark mode'']"

definition PRAISE_TRIGGERS :: "string list" where
  "PRAISE_TRIGGERS = [''love'', ''amazing'', ''perfect'', ''best'', ''smooth'', ''works great'']"

definition COMPLAINT_TRIGGERS :: "string list" where
  "COMPLAINT_TRIGGERS =
     [''slow'', ''lag'', ''expensive'', ''poor'', ''bad'', ''annoying'', ''ads'', ''too many ads'',
      ''pricey'', ''support is'']"

definition SPAM_TRIGGERS :: "string list" where
  "SPAM_TRIGGERS =
     [''http'', ''www'', ''visit'', ''free'', ''money'', ''channel'', ''asdf'', ''subscribe'',
      ''coins'', ''discount code'']"

definition contains_any :: "string \<Rightarrow> string list \<Rightarrow> bool" where
  "contains_any text needles = (let t = lower text in list_ex (\<lambda>n. str_in n t) needles)"

definition fallback_classify :: "string \<Rightarrow> real option \<Rightarrow> string \<times> real \<times> string" where
  "fallback_classify text rating =
     (if contains_any text SPAM_TRIGGERS then (''Spam'', 0.95, ''spam trigger'')
      else if contains_any text BUG_TRIGGERS then
        (let conf = (if str_in ''crash'' (lower text) \<or> str_in ''data loss'' (lower text)
                     then 0.9 else 0.75)
         in (''Bug'', conf, ''bug trigger''))
      else if contains_any text FEATURE_TRIGGERS then (''Feature Request'', 0.8, ''feature trigger'')
      else if contains_any text PRAISE_TRIGGERS then (''Praise'', 0.7, ''praise trigger'')
      else if contains_any text COMPLAINT_TRIGGERS then (''Complaint'', 0.7, ''complaint trigger'')
      else (case rating of
              None \<Rightarrow> (''Other'', 0.4, ''default fallback'')
            | Some r \<Rightarrow>
                if r \<le> 2 then (''Complaint'', 0.55, ''rating fallback'')
                else if r \<ge> 4 then (''Praise'', 0.55, ''rating fallback'')
                else (''Other'', 0.4, ''default fallback'')))"

definition fallback_bug_analysis :: "string \<Rightarrow> string \<Rightarrow> string \<Rightarrow> string \<times> string \<times> string" where
  "fallback_bug_analysis text platform app_version =
     (let sev = (if str_in ''crash'' (lower text) \<or> str_in ''data loss'' (lower text)
                    \<or> str_in ''can't login'' (lower text) \<or> str_in ''cannot login'' (lower text)
                 then ''High'' else ''Medium'');
          details = ''Platform='' @ platform @ ''; Version='' @ app_version
                    @ ''; Summary='' @ take 140 text
      in (sev, details, ''rule-based severity''))"

definition fallback_feature :: "string \<Rightarrow> string \<times> string \<times> string" where
  "fallback_feature text =
     (let low = [''widget'', ''export'', ''multiple accounts''];
          high = [''dark mode'', ''calendar'', ''integration''];
          tl = lower text
      in if list_ex (\<lambda>h. str_in h tl) high
           then (''High'', ''Feature: '' @ take 140 text, ''high-impact trigger'')
         else if list_ex (\<lambda>l. str_in l tl) low
           then (''Medium'', ''Feature: '' @ take 140 text, ''medium-impact trigger'')
         else (''Low'', ''Feature: '' @ take 140 text, ''low-impact default''))"

section \<open>Python values and exceptions\<close>

text \<open>
  The values that travel through the decision steps are dynamically typed: the backend's
  reply is whatever \<open>json.loads\<close> produced, and a ticket is a \<open>Dict[str, Any]\<close>. A dictionary
  with string keys is an association list in insertion order, read with \<open>map_of\<close> and
  written with \<open>AList.update\<close> (replace in place, or append a new key); \<open>None\<close> is \<open>PNone\<close>.
\<close>

datatype pyval =
    PNone
  | PBool bool
  | PInt int
  | PFloat real
  | PStr string
  | PList "pyval list"
  | PDict "(string \<times> pyval) list"

type_synonym pydict = "(string \<times> pyval) list"

text \<open>Every \<open>raise\<close> of the source is a value. \<open>BackendError\<close> is whatever the remote call raises.\<close>

datatype exn =
    BackendError string
  | AttributeError
  | TypeError
  | ValueError
  | OverflowError
  | KeyError string
  | MergeError

text \<open>
  Library functions the source calls and that are not part of the repository are parameters:
  \<open>json.loads\<close> (\<open>None\<close> when it raises), \<open>json.dumps\<close>, \<open>float\<close> on a string (\<open>None\<close> when it
  raises \<open>ValueError\<close>) and \<open>str\<close> on a value that is not a string.
\<close>

record pylib =
  json_loads :: "string \<Rightarrow> pyval option"
  json_dumps :: "pyval \<Rightarrow> string"
  float_of_str :: "string \<Rightarrow> real option"
  py_repr :: "pyval \<Rightarrow> string"

definition dict_get :: "pydict \<Rightarrow> string \<Rightarrow> pyval \<Rightarrow> pyval" where
  "dict_get d k dflt = (case map_of d k of Some v \<Rightarrow> v | None \<Rightarrow> dflt)"

definition truthy :: "pyval \<Rightarrow> bool" where
  "truthy v =
     (case v of
        PNone \<Rightarrow> False
      | PBool b \<Rightarrow> b
      | PInt i \<Rightarrow> i \<noteq> 0
      | PFloat r \<Rightarrow> r \<noteq> 0
      | PStr s \<Rightarrow> s \<noteq> []
      | PList xs \<Rightarrow> xs \<noteq> []
      | PDict d \<Rightarrow> d \<noteq> [])"

text \<open>
  \<open>float(v)\<close>. An integer converts unless it rounds to a double of magnitude \<open>2 ^ 1024\<close> or more,
  that is from \<open>2 ^ 1024 - 2 ^ 970\<close> on; then \<open>float\<close> raises \<open>OverflowError\<close>.
\<close>

definition py_float :: "pylib \<Rightarrow> pyval \<Rightarrow> exn + real" where
  "py_float lib v =
     (case v of
        PFloat r \<Rightarrow> Inr r
      | PInt i \<Rightarrow> if \<bar>i\<bar> \<ge> 2 ^ 1024 - 2 ^ 970 then Inl OverflowError else Inr (of_int i)
      | PBool b \<Rightarrow> Inr (if b then 1 else 0)
      | PStr s \<Rightarrow> (case float_of_str lib s of Some r \<Rightarrow> Inr r | None \<Rightarrow> Inl ValueError)
      | _ \<Rightarrow> Inl TypeError)"

definition py_str :: "pylib \<Rightarrow> pyval \<Rightarrow> string" where
  "py_str lib v = (case v of PStr s \<Rightarrow> s | _ \<Rightarrow> py_repr lib v)"

text \<open>\<open>v[:n]\<close>: strings and lists are sliced, anything else raises.\<close>

definition slice_to :: "nat \<Rightarrow> pyval \<Rightarrow> exn + pyval" where
  "slice_to n v =
     (case v of
        PStr s \<Rightarrow> Inr (PStr (take n s))
      | PList xs \<Rightarrow> Inr (PList (take n xs))
      | _ \<Rightarrow> Inl TypeError)"

section \<open>Reasoning backend adapter (gemini\_client.py)\<close>

text \<open>
  The remote model is a function from the prompt to what \<open>generate_content\<close> does: it raises,
  or it returns a response whose \<open>text\<close> is a string or \<open>None\<close>.
\<close>

datatype response = Raises exn | Resp "string option"

record GeminiClient =
  enabled :: bool
  model_name :: string
  model :: "(string \<Rightarrow> response) option"

definition is_space :: "char \<Rightarrow> bool" where
  "is_space c =
     (let n = (of_char c :: nat)
      in (9 \<le> n \<and> n \<le> 13) \<or> (28 \<le> n \<and> n \<le> 32) \<or> n = 133 \<or> n = 160)"

definition strip :: "string \<Rightarrow> string" where
  "strip s = rev (dropWhile is_space (rev (dropWhile is_space s)))"

definition GeminiClient_init :: "string option \<Rightarrow> string \<Rightarrow> (string \<Rightarrow> response) \<Rightarrow> GeminiClient" where
  "GeminiClient_init api_key name remote =
     (let en = (case api_key of None \<Rightarrow> False | Some k \<Rightarrow> length (strip k) > 0)
      in \<lparr>enabled = en, model_name = name, model = (if en then Some remote else None)\<rparr>)"

primrec index_of :: "char \<Rightarrow> string \<Rightarrow> nat option" where
  "index_of c [] = None"
| "index_of c (x # xs) = (if x = c then Some 0 else map_option Suc (index_of c xs))"

text \<open>\<open>text.find(c)\<close> and \<open>text.rfind(c)\<close> for a one-character needle: an index, or -1.\<close>

definition str_find :: "string \<Rightarrow> char \<Rightarrow> int" where
  "str_find s c = (case index_of c s of None \<Rightarrow> - 1 | Some i \<Rightarrow> int i)"

definition str_rfind :: "string \<Rightarrow> char \<Rightarrow> int" where
  "str_rfind s c = (case index_of c (rev s) of None \<Rightarrow> - 1 | Some i \<Rightarrow> int (length s) - 1 - int i)"

text \<open>\<open>s[a:b]\<close> for indices that are not negative.\<close>

definition str_slice :: "string \<Rightarrow> int \<Rightarrow> int \<Rightarrow> string" where
  "str_slice s a b = take (nat b - nat a) (drop (nat a) s)"

definition ask_json :: "pylib \<Rightarrow> GeminiClient \<Rightarrow> string \<Rightarrow> string \<Rightarrow> exn + pyval" where
  "ask_json lib g system_prompt user_content =
     (if \<not> enabled g then Inr PNone
      else
        let prompt = system_prompt @ ''\<newline>\<newline>User Input:\<newline>'' @ user_content
                     @ ''\<newline>\<newline>Return a valid JSON only.''
        in case model g of
             None \<Rightarrow> Inl AttributeError
           | Some generate_content \<Rightarrow>
               (case generate_content prompt of
                  Raises e \<Rightarrow> Inl e
                | Resp t \<Rightarrow>
                    let text = strip (case t of None \<Rightarrow> '''' | Some s \<Rightarrow> s)
                    in case json_loads lib text of
                         Some v \<Rightarrow> Inr v
                       | None \<Rightarrow>
                           let start = str_find text (CHR ''{'');
                               end' = str_rfind text (CHR ''}'')
                           in if start \<noteq> - 1 \<and> end' \<noteq> - 1 \<and> end' > start
                              then (case json_loads lib (str_slice text start (end' + 1)) of
                                      Some v \<Rightarrow> Inr v
                                    | None \<Rightarrow> Inr PNone)
                              else Inr PNone))"

section \<open>Prompts (prompts.py)\<close>

definition SYSTEM_CLASSIFIER :: string where
  "SYSTEM_CLASSIFIER =
     ''You are FeedbackClassifierAgent.\<newline>''
     @ ''Classify the input text into one of: Bug, Feature Request, Praise, Complaint, Spam, Other.\<newline>''
     @ ''Output a compact JSON with fields: category, confidence (0..1), brief_rationale.''"

definition SYSTEM_BUG_ANALYZER :: string where
  "SYSTEM_BUG_ANALYZER =
     ''You are BugAnalysisAgent.\<newline>''
     @ ''Given a potential bug report, extract:\<newline>''
     @ ''- severity: Critical / High / Medium / Low (be conservative; crashes, login failures, or data loss are Critical/High)\<newline>''
     @ ''- technical_details: Platform, Version, concise summary.\<newline>''
     @ ''Return JSON with fields: severity, technical_details, brief_rationale.''"

definition SYSTEM_FEATURE_EXTRACTOR :: string where
  "SYSTEM_FEATURE_EXTRACTOR =
     ''You are FeatureExtractorAgent.\<newline>''
     @ ''Given a feature request, estimate user impact (High/Medium/Low) and summarize.\<newline>''
     @ ''Return JSON with fields: impact, details, suggested_title.''"

definition SYSTEM_TICKET_CREATOR :: string where
  "SYSTEM_TICKET_CREATOR =
     ''You are TicketCreatorAgent.\<newline>''
     @ ''Create a structured, concise ticket title (<= 80 chars) and short body.\<newline>''
     @ ''Return JSON with fields: title, body.''"

definition SYSTEM_CRITIC :: string where
  "SYSTEM_CRITIC =
     ''You are QualityCriticAgent.\<newline>''
     @ ''Check a ticket for completeness, consistency, and priority sanity (Spam/Praise shouldn't be High/Critical).\<newline>''
     @ ''If adjustments are needed, return corrected fields. Else return 'ok': true.\<newline>''
     @ ''Output JSON with optional corrected fields.''"

section \<open>Decision steps: backend first, fallback otherwise (tool\_gemini.py)\<close>

text \<open>The payload dictionaries handed to \<open>json.dumps\<close> by the four steps.\<close>

definition classify_payload :: "string \<Rightarrow> real option \<Rightarrow> pyval" where
  "classify_payload text rating =
     PDict [(''text'', PStr text),
            (''rating'', case rating of None \<Rightarrow> PNone | Some r \<Rightarrow> PFloat r)]"

definition bug_payload :: "string \<Rightarrow> string \<Rightarrow> string \<Rightarrow> pyval" where
  "bug_payload text platform app_version =
     PDict [(''text'', PStr text), (''platform'', PStr platform), (''version'', PStr app_version)]"

definition feature_payload :: "string \<Rightarrow> pyval" where
  "feature_payload text = PDict [(''text'', PStr text)]"

definition compose_payload :: "pyval \<Rightarrow> pyval \<Rightarrow> pyval" where
  "compose_payload th bh = PDict [(''title_hint'', th), (''body_hint'', bh)]"

definition classify_with_gemini ::
  "pylib \<Rightarrow> GeminiClient \<Rightarrow> string \<Rightarrow> real option \<Rightarrow> exn + (pyval \<times> real \<times> pyval)" where
  "classify_with_gemini lib g text rating =
     (let payload = classify_payload text rating;
          fallback = (case fallback_classify text rating of
                        (c, conf, why) \<Rightarrow> Inr (PStr c, conf, PStr why))
      in if enabled g then
           (case ask_json lib g SYSTEM_CLASSIFIER (json_dumps lib payload) of
              Inl e \<Rightarrow> Inl e
            | Inr out \<Rightarrow>
                (case out of
                   PDict d \<Rightarrow>
                     if map_of d ''category'' \<noteq> None then
                       (case py_float lib (dict_get d ''confidence'' (PFloat 0.6)) of
                          Inl e \<Rightarrow> Inl e
                        | Inr conf \<Rightarrow>
                            Inr (dict_get d ''category'' (PStr ''Other''), conf,
                                 dict_get d ''brief_rationale'' (PStr '''')))
                     else fallback
                 | _ \<Rightarrow> fallback))
         else fallback)"

definition analyze_bug_with_gemini ::
  "pylib \<Rightarrow> GeminiClient \<Rightarrow> string \<Rightarrow> string \<Rightarrow> string \<Rightarrow> exn + (pyval \<times> pyval \<times> pyval)" where
  "analyze_bug_with_gemini lib g text platform app_version =
     (let payload = bug_payload text platform app_version;
          fallback = (case fallback_bug_analysis text platform app_version of
                        (sev, details, why) \<Rightarrow> Inr (PStr sev, PStr details, PStr why))
      in if enabled g then
           (case ask_json lib g SYSTEM_BUG_ANALYZER (json_dumps lib payload) of
              Inl e \<Rightarrow> Inl e
            | Inr out \<Rightarrow>
                (case out of
                   PDict d \<Rightarrow>
                     if map_of d ''severity'' \<noteq> None then
                       Inr (dict_get d ''severity'' (PStr ''Medium''),
                            dict_get d ''technical_details'' (PStr ''''),
                            dict_get d ''brief_rationale'' (PStr ''''))
                     else fallback
                 | _ \<Rightarrow> fallback))
         else fallback)"

definition extract_feature_with_gemini ::
  "pylib \<Rightarrow> GeminiClient \<Rightarrow> string \<Rightarrow> exn + (pyval \<times> pyval \<times> pyval)" where
  "extract_feature_with_gemini lib g text =
     (let payload = feature_payload text;
          fallback = (case fallback_feature text of
                        (impact, details, why) \<Rightarrow> Inr (PStr impact, PStr details, PStr why))
      in if enabled g then
           (case ask_json lib g SYSTEM_FEATURE_EXTRACTOR (json_dumps lib payload) of
              Inl e \<Rightarrow> Inl e
            | Inr out \<Rightarrow>
                (case out of
                   PDict d \<Rightarrow>
                     if map_of d ''impact'' \<noteq> None then
                       Inr (dict_get d ''impact'' (PStr ''Low''),
                            dict_get d ''details'' (PStr (''Feature: '' @ take 140 text)),
                            dict_get d ''suggested_title'' (PStr ''Feature''))
                     else fallback
                 | _ \<Rightarrow> fallback))
         else fallback)"

text \<open>
  The two hints are sliced for the payload before the backend is consulted, so a hint that
  cannot be sliced raises in either mode.
\<close>

definition compose_ticket_with_gemini ::
  "pylib \<Rightarrow> GeminiClient \<Rightarrow> pyval \<Rightarrow> pyval \<Rightarrow> exn + (pyval \<times> pyval)" where
  "compose_ticket_with_gemini lib g title_hint body_hint =
     (case slice_to 120 title_hint of
        Inl e \<Rightarrow> Inl e
      | Inr th \<Rightarrow>
     (case slice_to 500 body_hint of
        Inl e \<Rightarrow> Inl e
      | Inr bh \<Rightarrow>
          let payload = compose_payload th bh;
              fallback = (case slice_to 80 title_hint of
                            Inl e \<Rightarrow> Inl e
                          | Inr t \<Rightarrow>
                              (case slice_to 400 body_hint of
                                 Inl e \<Rightarrow> Inl e
                               | Inr b \<Rightarrow> Inr (t, b)))
          in if enabled g then
               (case ask_json lib g SYSTEM_TICKET_CREATOR (json_dumps lib payload) of
                  Inl e \<Rightarrow> Inl e
                | Inr out \<Rightarrow>
                    (case out of
                       PDict d \<Rightarrow>
                         if map_of d ''title'' \<noteq> None \<and> map_of d ''body'' \<noteq> None then
                           (case slice_to 80 (dict_get d ''title'' PNone) of
                              Inl e \<Rightarrow> Inl e
                            | Inr t \<Rightarrow> Inr (t, dict_get d ''body'' PNone))
                         else fallback
                     | _ \<Rightarrow> fallback))
             else fallback))"

subsection \<open>Quality critic\<close>

text \<open>The block after the comment \<open>fallback: minimal sanity\<close>, on the copied dictionary.\<close>

definition critic_fallback :: "pydict \<Rightarrow> pydict" where
  "critic_fallback ticket =
     (let corrected = ticket
      in if dict_get corrected ''category'' PNone \<in> set [PStr ''Spam'', PStr ''Praise'']
            \<and> dict_get corrected ''priority'' PNone \<in> set [PStr ''High'', PStr ''Critical'']
         then AList.update ''priority'' (PStr ''Low'') corrected
         else corrected)"

text \<open>The loop \<open>for k, v in out.items(): if k != "ok": corrected[k] = v\<close>.\<close>

definition merge_corrections :: "pydict \<Rightarrow> pydict \<Rightarrow> pydict" where
  "merge_corrections corrected out =
     fold (\<lambda>(k, v) c. if k \<noteq> ''ok'' then AList.update k v c else c) out corrected"

definition critic_with_gemini :: "pylib \<Rightarrow> GeminiClient \<Rightarrow> pydict \<Rightarrow> exn + pydict" where
  "critic_with_gemini lib g ticket =
     (if enabled g then
        (case ask_json lib g SYSTEM_CRITIC (json_dumps lib (PDict ticket)) of
           Inl e \<Rightarrow> Inl e
         | Inr out \<Rightarrow>
             (case out of
                PDict d \<Rightarrow>
                  if map_of d ''ok'' = Some (PBool True) then Inr ticket
                  else Inr (merge_corrections ticket d)
              | _ \<Rightarrow> Inr (critic_fallback ticket)))
      else Inr (critic_fallback ticket))"

text \<open>
  The same function with the dictionaries held in a store, so that \<open>ticket.copy()\<close>, the
  assignment \<open>corrected["priority"] = "Low"\<close> and \<open>return ticket\<close> are told apart. A
  reference is an index into the store; \<open>copy\<close> allocates the next index.
\<close>

type_synonym store = "pydict list"

definition dict_copy :: "store \<Rightarrow> nat \<Rightarrow> nat \<times> store" where
  "dict_copy h a = (length h, h @ [h ! a])"

definition dict_setitem :: "store \<Rightarrow> nat \<Rightarrow> string \<Rightarrow> pyval \<Rightarrow> store" where
  "dict_setitem h a k v = h[a := AList.update k v (h ! a)]"

definition critic_fallback_ref :: "store \<Rightarrow> nat \<Rightarrow> nat \<times> store" where
  "critic_fallback_ref h ticket =
     (case dict_copy h ticket of
        (corrected, h1) \<Rightarrow>
          if dict_get (h1 ! corrected) ''category'' PNone \<in> set [PStr ''Spam'', PStr ''Praise'']
             \<and> dict_get (h1 ! corrected) ''priority'' PNone \<in> set [PStr ''High'', PStr ''Critical'']
          then (corrected, dict_setitem h1 corrected ''priority'' (PStr ''Low''))
          else (corrected, h1))"

definition critic_with_gemini_ref ::
  "pylib \<Rightarrow> GeminiClient \<Rightarrow> store \<Rightarrow> nat \<Rightarrow> exn + (nat \<times> store)" where
  "critic_with_gemini_ref lib g h ticket =
     (if enabled g then
        (case ask_json lib g SYSTEM_CRITIC (json_dumps lib (PDict (h ! ticket))) of
           Inl e \<Rightarrow> Inl e
         | Inr out \<Rightarrow>
             (case out of
                PDict d \<Rightarrow>
                  if map_of d ''ok'' = Some (PBool True) then Inr (ticket, h)
                  else (case dict_copy h ticket of
                          (corrected, h1) \<Rightarrow>
                            Inr (corrected, h1[corrected := merge_corrections (h1 ! corrected) d]))
              | _ \<Rightarrow> Inr (critic_fallback_ref h ticket)))
      else Inr (critic_fallback_ref h ticket))"

section \<open>Tickets (tool\_gemini.py)\<close>

text \<open>
  The fields of the dataclass. The category, the title and the details may come from the
  backend's reply and are then whatever JSON value it held.
\<close>

record Ticket =
  ticket_id :: string
  source_id :: string
  source_type :: string
  category :: pyval
  priority :: string
  title :: pyval
  technical_details :: pyval
  created_at :: string
  confidence :: real
  link_back :: string

text \<open>\<open>now\<close> is the formatted reading of the clock when the ticket is built.\<close>

definition create_ticket ::
  "string \<Rightarrow> string \<Rightarrow> string \<Rightarrow> pyval \<Rightarrow> string \<Rightarrow> pyval \<Rightarrow> pyval \<Rightarrow> real \<Rightarrow> string \<Rightarrow> Ticket" where
  "create_ticket now feedback_id src cat prio ttl details conf link =
     \<lparr>ticket_id = ''T'' @ feedback_id,
      source_id = feedback_id,
      source_type = src,
      category = cat,
      priority = prio,
      title = ttl,
      technical_details = details,
      created_at = now,
      confidence = conf,
      link_back = (if link \<noteq> [] then link else '''')\<rparr>"

text \<open>\<open>t.__dict__.copy()\<close>: the ticket as a dictionary.\<close>

definition ticket_dict :: "Ticket \<Rightarrow> pydict" where
  "ticket_dict t =
     [(''ticket_id'', PStr (ticket_id t)),
      (''source_id'', PStr (source_id t)),
      (''source_type'', PStr (source_type t)),
      (''category'', category t),
      (''priority'', PStr (priority t)),
      (''title'', title t),
      (''technical_details'', technical_details t),
      (''created_at'', PStr (created_at t)),
      (''confidence'', PFloat (confidence t)),
      (''link_back'', PStr (link_back t))]"

section \<open>One feedback row to one ticket (autogen\_pipeline.py)\<close>

text \<open>
  A row of the reviews or support-email table. A field is \<open>None\<close> when the table has no
  such column, so that \<open>row.get(k, d)\<close> yields \<open>d\<close>; identifiers are held as the strings
  that \<open>str\<close> makes of them.
\<close>

record feedback_row =
  review_text :: "string option"
  body :: "string option"
  rating :: "real option"
  platform :: "string option"
  device :: "string option"
  app_version :: "string option"
  appVersion :: "string option"
  url :: "string option"
  review_id :: "string option"
  email_id :: "string option"

text \<open>\<open>{...}.get(severity, "Medium")\<close>: a list or a dictionary is unhashable.\<close>

definition priority_of_severity :: "pyval \<Rightarrow> exn + string" where
  "priority_of_severity severity =
     (case severity of
        PStr s \<Rightarrow> Inr (if s \<in> set [''Critical'', ''High'', ''Medium'', ''Low''] then s else ''Medium'')
      | PList xs \<Rightarrow> Inl TypeError
      | PDict d \<Rightarrow> Inl TypeError
      | _ \<Rightarrow> Inr ''Medium'')"

definition priority_of_impact :: "pyval \<Rightarrow> exn + string" where
  "priority_of_impact impact =
     (case impact of
        PStr s \<Rightarrow> Inr (if s \<in> set [''High'', ''Medium'', ''Low''] then s else ''Low'')
      | PList xs \<Rightarrow> Inl TypeError
      | PDict d \<Rightarrow> Inl TypeError
      | _ \<Rightarrow> Inr ''Low'')"

text \<open>The tail of \<open>row_to_ticket\<close>, from \<open>compose_ticket_with_gemini\<close> on.\<close>

definition compose_and_create ::
  "pylib \<Rightarrow> GeminiClient \<Rightarrow> string \<Rightarrow> feedback_row \<Rightarrow> string \<Rightarrow> pyval \<Rightarrow> real \<Rightarrow> string \<Rightarrow> pyval \<Rightarrow> pyval
     \<Rightarrow> exn + Ticket" where
  "compose_and_create lib g now row src cat conf prio title_hint details =
     (case compose_ticket_with_gemini lib g title_hint details of
        Inl e \<Rightarrow> Inl e
      | Inr (ttl, bdy) \<Rightarrow>
          let link = (case url row of Some u \<Rightarrow> u | None \<Rightarrow> '''');
              fid = (case review_id row of
                       Some i \<Rightarrow> i
                     | None \<Rightarrow> (case email_id row of Some i \<Rightarrow> i | None \<Rightarrow> ''''))
          in Inr (create_ticket now fid src cat prio ttl (if truthy bdy then bdy else details)
                    conf link))"

definition row_to_ticket ::
  "pylib \<Rightarrow> GeminiClient \<Rightarrow> string \<Rightarrow> feedback_row \<Rightarrow> string \<Rightarrow> exn + Ticket" where
  "row_to_ticket lib g now row src =
     (let text = (case review_text row of
                    Some s \<Rightarrow> if s \<noteq> [] then s
                              else (case body row of Some b \<Rightarrow> b | None \<Rightarrow> '''')
                  | None \<Rightarrow> (case body row of Some b \<Rightarrow> b | None \<Rightarrow> ''''))
      in case classify_with_gemini lib g text (rating row) of
           Inl e \<Rightarrow> Inl e
         | Inr (cat, conf, why) \<Rightarrow>
             let plat = (case platform row of
                           Some p \<Rightarrow> p
                         | None \<Rightarrow> (case device row of Some d \<Rightarrow> d | None \<Rightarrow> ''Unknown''));
                 version = (case app_version row of
                              Some v \<Rightarrow> v
                            | None \<Rightarrow> (case appVersion row of Some v \<Rightarrow> v | None \<Rightarrow> ''Unknown''))
             in if cat = PStr ''Bug'' then
                  (case analyze_bug_with_gemini lib g text plat version of
                     Inl e \<Rightarrow> Inl e
                   | Inr (severity, tech_details, why') \<Rightarrow>
                       (case priority_of_severity severity of
                          Inl e \<Rightarrow> Inl e
                        | Inr prio \<Rightarrow>
                            compose_and_create lib g now row src cat conf prio
                              (PStr (''Bug: '' @ take 72 text)) tech_details))
                else if cat = PStr ''Feature Request'' then
                  (case extract_feature_with_gemini lib g text of
                     Inl e \<Rightarrow> Inl e
                   | Inr (impact, feat_details, suggested_title) \<Rightarrow>
                       (case priority_of_impact impact of
                          Inl e \<Rightarrow> Inl e
                        | Inr prio \<Rightarrow>
                            compose_and_create lib g now row src cat conf prio
                              (if truthy suggested_title then suggested_title
                               else PStr (''Feature: '' @ take 72 text))
                              feat_details))
                else if cat = PStr ''Complaint'' then
                  compose_and_create lib g now row src cat conf ''Medium''
                    (PStr (''Complaint: '' @ take 72 text)) (PStr (''Complaint: '' @ take 240 text))
                else if cat = PStr ''Praise'' then
                  compose_and_create lib g now row src cat conf ''Low''
                    (PStr ''Praise'') (PStr ''Positive feedback'')
                else if cat = PStr ''Spam'' then
                  compose_and_create lib g now row src cat conf ''Low''
                    (PStr ''Spam'') (PStr ''Likely spam'')
                else
                  compose_and_create lib g now row src cat conf ''Low''
                    (if take 72 text \<noteq> [] then PStr (take 72 text)
                     else PStr (py_str lib cat @ '' item''))
                    (PStr (''Summary='' @ take 240 text)))"

section \<open>Tables and metrics (tool\_gemini.py)\<close>

text \<open>
  A pandas \<open>DataFrame\<close> is its column labels and its rows; a row is a dictionary from column
  label to cell, and a cell that is missing reads as \<open>PNone\<close>. The column labels are kept
  apart from the rows because a frame without rows may or may not have columns:
  \<open>pd.DataFrame([])\<close> has none. The mean is the exact quotient.
\<close>

record dataframe =
  columns :: "string list"
  rows :: "pydict list"

text \<open>\<open>pd.DataFrame(records)\<close> for a list of dictionaries: the columns are the keys, in order
  of first appearance.\<close>

definition DataFrame :: "pydict list \<Rightarrow> dataframe" where
  "DataFrame records =
     \<lparr>columns = rev (remdups (rev (concat (map (map fst) records)))), rows = records\<rparr>"

text \<open>\<open>df[c]\<close>: the cells of a column, or \<open>KeyError\<close>.\<close>

definition column :: "dataframe \<Rightarrow> string \<Rightarrow> exn + pyval list" where
  "column df c =
     (if c \<in> set (columns df) then Inr (map (\<lambda>r. dict_get r c PNone) (rows df))
      else Inl (KeyError c))"

text \<open>Elementwise \<open>==\<close>: a missing cell equals nothing.\<close>

definition cell_eq :: "pyval \<Rightarrow> pyval \<Rightarrow> bool" where
  "cell_eq a b = (a \<noteq> PNone \<and> b \<noteq> PNone \<and> a = b)"

definition num_of :: "pyval \<Rightarrow> real option" where
  "num_of v =
     (case v of
        PFloat r \<Rightarrow> Some r
      | PInt i \<Rightarrow> Some (of_int i)
      | PBool b \<Rightarrow> Some (if b then 1 else 0)
      | _ \<Rightarrow> None)"

text \<open>\<open>.mean()\<close> of a column of numbers; the caller guards the empty column.\<close>

definition series_mean :: "pyval list \<Rightarrow> exn + real" where
  "series_mean xs =
     (case those (map num_of xs) of
        None \<Rightarrow> Inl TypeError
      | Some rs \<Rightarrow> Inr (sum_list rs / real (length rs)))"

text \<open>\<open>.mean()\<close> of a column of truth values.\<close>

definition bool_mean :: "bool list \<Rightarrow> real" where
  "bool_mean bs = real (length (filter (\<lambda>b. b) bs)) / real (length bs)"

text \<open>
  The dtype of a key column is the one pandas infers when it builds the frame from records
  or reads it from a file: numeric when the cells are numbers (some may be missing),
  otherwise \<open>object\<close>. An \<open>object\<close> column is string-like for \<open>merge\<close> when it holds no
  integer. A column of truth values only, a column of missing cells only and a column
  without cells are neither.
\<close>

definition numeric_cell :: "pyval \<Rightarrow> bool" where
  "numeric_cell v = (case v of PInt i \<Rightarrow> True | PFloat r \<Rightarrow> True | _ \<Rightarrow> False)"

definition int_cell :: "pyval \<Rightarrow> bool" where
  "int_cell v = (case v of PInt i \<Rightarrow> True | _ \<Rightarrow> False)"

definition bool_cell :: "pyval \<Rightarrow> bool" where
  "bool_cell v = (case v of PBool b \<Rightarrow> True | _ \<Rightarrow> False)"


definition numeric_dtype :: "pyval list \<Rightarrow> bool" where
  "numeric_dtype cells =
     (list_ex numeric_cell cells \<and> list_all (\<lambda>v. numeric_cell v \<or> v = PNone) cells)"

definition stringlike_dtype :: "pyval list \<Rightarrow> bool" where
  "stringlike_dtype cells =
     (cells \<noteq> [] \<and> \<not> numeric_dtype cells \<and> \<not> list_all bool_cell cells
      \<and> \<not> list_all (\<lambda>v. v = PNone) cells \<and> \<not> list_ex int_cell cells)"

text \<open>
  \<open>merge\<close> refuses to join a string-like key column to a numeric one (\<open>ValueError\<close>: "You are
  trying to merge on object and int64 columns").
\<close>

definition key_dtype_clash :: "pyval list \<Rightarrow> pyval list \<Rightarrow> bool" where
  "key_dtype_clash lk rk =
     ((stringlike_dtype lk \<and> numeric_dtype rk) \<or> (numeric_dtype lk \<and> stringlike_dtype rk))"

text \<open>Two key cells pair up when they are equal; an integer and a float are equal by value.\<close>

definition same_key :: "pyval \<Rightarrow> pyval \<Rightarrow> bool" where
  "same_key a b =
     (case (a, b) of
        (PInt i, PFloat r) \<Rightarrow> of_int i = r
      | (PFloat r, PInt i) \<Rightarrow> r = of_int i
      | _ \<Rightarrow> a = b)"

text \<open>
  \<open>left.merge(right, on=key, suffixes=(ls, rs))\<close>: the inner join. The key must be a column
  of both tables, and the two key columns must not clash in dtype. A label other than the
  key that both tables carry gets the suffix of its side; the labels of the result must be
  distinct. Rows pair up when their key cells are the same.
\<close>

definition merge :: "dataframe \<Rightarrow> dataframe \<Rightarrow> string \<Rightarrow> string \<Rightarrow> string \<Rightarrow> exn + dataframe" where
  "merge left right key ls rs =
     (if key \<notin> set (columns left) \<or> key \<notin> set (columns right) then Inl (KeyError key)
      else if key_dtype_clash (map (\<lambda>r. dict_get r key PNone) (rows left))
                (map (\<lambda>r. dict_get r key PNone) (rows right))
      then Inl ValueError
      else
        let overlap = (\<lambda>c. c \<noteq> key \<and> c \<in> set (columns left) \<and> c \<in> set (columns right));
            lname = (\<lambda>c. if overlap c then c @ ls else c);
            rname = (\<lambda>c. if overlap c then c @ rs else c);
            rcols = filter (\<lambda>c. c \<noteq> key) (columns right);
            cols = map lname (columns left) @ map rname rcols
        in if \<not> distinct cols then Inl MergeError
           else Inr \<lparr>columns = cols,
                     rows = concat (map (\<lambda>l.
                              map (\<lambda>r. map (\<lambda>c. (lname c, dict_get l c PNone)) (columns left)
                                        @ map (\<lambda>c. (rname c, dict_get r c PNone)) rcols)
                                (filter (\<lambda>r. same_key (dict_get r key PNone) (dict_get l key PNone))
                                   (rows right)))
                              (rows left))\<rparr>)"

text \<open>\<open>k.lower().replace(" ", "_")\<close>\<close>

definition metric_key :: "string \<Rightarrow> string" where
  "metric_key k = map (\<lambda>c. if c = CHR '' '' then CHR ''_'' else c) (lower k)"

text \<open>The loop over the six category names; each round reads the category column.\<close>

fun count_categories :: "dataframe \<Rightarrow> string list \<Rightarrow> pydict \<Rightarrow> exn + pydict" where
  "count_categories processing_log [] metrics = Inr metrics"
| "count_categories processing_log (k # ks) metrics =
     (case column processing_log ''category'' of
        Inl e \<Rightarrow> Inl e
      | Inr col \<Rightarrow>
          count_categories processing_log ks
            (AList.update (metric_key k)
               (PInt (int (length (filter (\<lambda>c. cell_eq c (PStr k)) col)))) metrics))"

definition category_accuracy :: "dataframe \<Rightarrow> exn + real" where
  "category_accuracy merged =
     (if length (rows merged) \<noteq> 0 then
        (case column merged ''category'' of
           Inl e \<Rightarrow> Inl e
         | Inr a \<Rightarrow>
             (case column merged ''category_expected'' of
                Inl e \<Rightarrow> Inl e
              | Inr b \<Rightarrow> Inr (bool_mean (map2 cell_eq a b))))
      else Inr 0.0)"

definition compute_metrics :: "dataframe \<Rightarrow> dataframe option \<Rightarrow> exn + dataframe" where
  "compute_metrics processing_log expected =
     (let metrics0 = [(''total_items'', PInt (int (length (rows processing_log))))]
      in case count_categories processing_log
                [''Bug'', ''Feature Request'', ''Praise'', ''Complaint'', ''Spam'', ''Other''] metrics0 of
           Inl e \<Rightarrow> Inl e
         | Inr metrics1 \<Rightarrow>
             (case (if length (rows processing_log) \<noteq> 0
                    then (case column processing_log ''confidence'' of
                            Inl e \<Rightarrow> Inl e
                          | Inr col \<Rightarrow> series_mean col)
                    else Inr 0.0) of
                Inl e \<Rightarrow> Inl e
              | Inr avg \<Rightarrow>
                  let metrics2 = AList.update ''avg_confidence'' (PFloat avg) metrics1
                  in case expected of
                       None \<Rightarrow> Inr (DataFrame [metrics2])
                     | Some ex \<Rightarrow>
                         if ''category'' \<in> set (columns ex) then
                           (case merge processing_log ex ''source_id'' '''' ''_expected'' of
                              Inl e \<Rightarrow> Inl e
                            | Inr merged \<Rightarrow>
                                if ''category_expected'' \<in> set (columns merged) then
                                  (case category_accuracy merged of
                                     Inl e \<Rightarrow> Inl e
                                   | Inr acc \<Rightarrow>
                                       Inr (DataFrame
                                              [AList.update ''category_accuracy'' (PFloat acc) metrics2]))
                                else Inr (DataFrame [metrics2]))
                         else Inr (DataFrame [metrics2])))"

section \<open>The batch (autogen\_pipeline.py)\<close>

definition getitem :: "pydict \<Rightarrow> string \<Rightarrow> exn + pyval" where
  "getitem d k = (case map_of d k of None \<Rightarrow> Inl (KeyError k) | Some v \<Rightarrow> Inr v)"

text \<open>The dictionary appended to \<open>processing_rows\<close>.\<close>

definition log_entry :: "string \<Rightarrow> pydict \<Rightarrow> exn + pydict" where
  "log_entry src td =
     (case getitem td ''source_id'' of Inl e \<Rightarrow> Inl e | Inr sid \<Rightarrow>
     (case getitem td ''category'' of Inl e \<Rightarrow> Inl e | Inr cat \<Rightarrow>
     (case getitem td ''priority'' of Inl e \<Rightarrow> Inl e | Inr prio \<Rightarrow>
     (case getitem td ''confidence'' of Inl e \<Rightarrow> Inl e | Inr conf \<Rightarrow>
        Inr [(''source_id'', sid), (''source_type'', PStr src), (''category'', cat),
             (''priority'', prio), (''confidence'', conf)]))))"

text \<open>
  One of the two loops of \<open>main\<close>: ticket, critic, then the two appends. \<open>clock n\<close> is the
  time at which the ticket after \<open>n\<close> earlier ones is built.
\<close>

fun process_rows ::
  "pylib \<Rightarrow> GeminiClient \<Rightarrow> (nat \<Rightarrow> string) \<Rightarrow> string \<Rightarrow> feedback_row list
     \<Rightarrow> pydict list \<times> pydict list \<Rightarrow> exn + (pydict list \<times> pydict list)" where
  "process_rows lib g clock src [] acc = Inr acc"
| "process_rows lib g clock src (r # rs) (tickets, processing_rows) =
     (case row_to_ticket lib g (clock (length tickets)) r src of
        Inl e \<Rightarrow> Inl e
      | Inr t \<Rightarrow>
          (case critic_with_gemini lib g (ticket_dict t) of
             Inl e \<Rightarrow> Inl e
           | Inr td \<Rightarrow>
               (case log_entry src td of
                  Inl e \<Rightarrow> Inl e
                | Inr entry \<Rightarrow>
                    process_rows lib g clock src rs (tickets @ [td], processing_rows @ [entry]))))"

text \<open>
  \<open>main\<close> from the tables on: the reviews and the support emails are the rows read from the
  two files, empty when a file is absent; the result is the three tables it saves.
\<close>

definition main ::
  "pylib \<Rightarrow> GeminiClient \<Rightarrow> (nat \<Rightarrow> string) \<Rightarrow> feedback_row list \<Rightarrow> feedback_row list
     \<Rightarrow> dataframe option \<Rightarrow> exn + (dataframe \<times> dataframe \<times> dataframe)" where
  "main lib g clock df_reviews df_support expected_df =
     (case process_rows lib g clock ''App Store Review'' df_reviews ([], []) of
        Inl e \<Rightarrow> Inl e
      | Inr acc \<Rightarrow>
          (case process_rows lib g clock ''Support Email'' df_support acc of
             Inl e \<Rightarrow> Inl e
           | Inr (tickets, processing_rows) \<Rightarrow>
               let tickets_df = DataFrame tickets;
                   log_df = DataFrame processing_rows
               in case compute_metrics log_df expected_df of
                    Inl e \<Rightarrow> Inl e
                  | Inr metrics_df \<Rightarrow> Inr (tickets_df, log_df, metrics_df)))"

section \<open>Concrete inputs\<close>

definition scenario_A :: string where
  "scenario_A = ''App crashes on login, lost all my data''"

definition noisy_spam :: string where
  "noisy_spam = ''VISIT www.example.biz - app crashes, would love dark mode, too many ads''"

text \<open>Two replies of the backend, as the texts \<open>{"confidence": 0.9}\<close> and \<open>{"priority": "High"}\<close>.\<close>

definition reply_without_keys :: string where
  "reply_without_keys = [CHR ''{'', CHR 0x22] @ ''confidence'' @ [CHR 0x22] @ '': 0.9}''"

definition reply_priority_high :: string where
  "reply_priority_high =
     [CHR ''{'', CHR 0x22] @ ''priority'' @ [CHR 0x22] @ '': '' @ [CHR 0x22] @ ''High''
     @ [CHR 0x22, CHR ''}'']"

text \<open>A library that parses these two texts and nothing else.\<close>

definition stub_lib :: pylib where
  "stub_lib =
     \<lparr>json_loads = (\<lambda>s. if s = reply_without_keys then Some (PDict [(''confidence'', PFloat 0.9)])
                        else if s = reply_priority_high then Some (PDict [(''priority'', PStr ''High'')])
                        else None),
      json_dumps = (\<lambda>v. ''''),
      float_of_str = (\<lambda>s. None),
      py_repr = (\<lambda>v. '''')\<rparr>"

text \<open>
  Four clients: without a credential; with a backend whose every reply lacks the required
  keys; with a backend that cannot be reached; with a backend that answers the critic's
  prompt by a priority and every other prompt by nothing.
\<close>

definition offline :: GeminiClient where
  "offline = GeminiClient_init None ''gemini-1.5-flash'' (\<lambda>p. Resp None)"

definition incomplete :: GeminiClient where
  "incomplete =
     GeminiClient_init (Some ''key'') ''gemini-1.5-flash'' (\<lambda>p. Resp (Some reply_without_keys))"

definition unreachable :: GeminiClient where
  "unreachable =
     GeminiClient_init (Some ''key'') ''gemini-1.5-flash''
       (\<lambda>p. Raises (BackendError ''connection refused''))"

definition overriding :: GeminiClient where
  "overriding =
     GeminiClient_init (Some ''key'') ''gemini-1.5-flash''
       (\<lambda>p. if prefix SYSTEM_CRITIC p then Resp (Some reply_priority_high) else Resp None)"

text \<open>Two tickets as the critic receives them, and the row of scenario C.\<close>

definition spam_medium :: pydict where
  "spam_medium =
     ticket_dict (create_ticket ''2024-01-01 12:00:00'' ''17'' ''App Store Review'' (PStr ''Spam'')
                    ''Medium'' (PStr ''Spam'') (PStr ''Likely spam'') 0.95 '''')"

definition praise_critical :: pydict where
  "praise_critical =
     ticket_dict (create_ticket ''2024-01-01 12:00:00'' ''18'' ''Support Email'' (PStr ''Praise'')
                    ''Critical'' (PStr ''Praise'') (PStr ''Positive feedback'') 0.7 '''')"

definition scenario_C :: feedback_row where
  "scenario_C =
     \<lparr>review_text = Some ''Check this out http://freecoins.biz'', body = None, rating = Some 5,
      platform = None, device = None, app_version = None, appVersion = None, url = None,
      review_id = Some ''17'', email_id = None\<rparr>"

definition noon :: "nat \<Rightarrow> string" where
  "noon n = ''2024-01-01 12:00:00''"

section \<open>The metrics in the words of the specification\<close>

text \<open>
  The number of log rows whose category cell is \<open>k\<close>; the pairs of a log row and a reference
  row with the same source id; the fraction of these pairs whose two categories are equal.
\<close>

definition category_count :: "dataframe \<Rightarrow> string \<Rightarrow> pyval" where
  "category_count df k =
     PInt (int (length (filter (\<lambda>c. cell_eq c (PStr k))
                          (map (\<lambda>r. dict_get r ''category'' PNone) (rows df)))))"



text \<open>A log of two entries, a reference that matches one of them, one that matches no
  source id, and one without a category column.\<close>

definition log_two :: dataframe where
  "log_two =
     DataFrame
       [[(''source_id'', PStr ''R7''), (''source_type'', PStr ''App Store Review''),
         (''category'', PStr ''Bug''), (''priority'', PStr ''High''), (''confidence'', PFloat 0.9)],
        [(''source_id'', PStr ''R17''), (''source_type'', PStr ''App Store Review''),
         (''category'', PStr ''Spam''), (''priority'', PStr ''Low''), (''confidence'', PFloat 0.95)]]"




text \<open>The reference of \<open>expected_half\<close> with its identifiers read as integers.\<close>

definition expected_numeric_ids :: dataframe where
  "expected_numeric_ids =
     \<lparr>columns = [''source_id'', ''category''],
      rows = [[(''source_id'', PInt 7), (''category'', PStr ''Bug'')],
              [(''source_id'', PInt 17), (''category'', PStr ''Praise'')]]\<rparr>"

definition log_no_rows :: dataframe where
  "log_no_rows =
     \<lparr>columns = [''source_id'', ''source_type'', ''category'', ''priority'', ''confidence''],
      rows = []\<rparr>"

text \<open>The summary row before the accuracy is added: the total, the six counts, the mean.\<close>

definition base_metrics :: "dataframe \<Rightarrow> real \<Rightarrow> pydict" where
  "base_metrics df avg =
     [(''total_items'', PInt (int (length (rows df)))), (''bug'', category_count df ''Bug''),
      (''feature_request'', category_count df ''Feature Request''),
      (''praise'', category_count df ''Praise''),
      (''complaint'', category_count df ''Complaint''),
      (''spam'', category_count df ''Spam''), (''other'', category_count df ''Other''),
      (''avg_confidence'', PFloat avg)]"

text \<open>The guarded mean of the confidence column.\<close>

definition avg_confidence :: "dataframe \<Rightarrow> exn + real" where
  "avg_confidence df =
     (if length (rows df) \<noteq> 0
      then (case column df ''confidence'' of Inl e \<Rightarrow> Inl e | Inr col \<Rightarrow> series_mean col)
      else Inr 0.0)"

text \<open>A library that parses nothing.\<close>

definition silent_lib :: pylib where
  "silent_lib =
     \<lparr>json_loads = (\<lambda>s. None), json_dumps = (\<lambda>v. ''{}''), float_of_str = (\<lambda>s. None),
      py_repr = (\<lambda>v. ''?'')\<rparr>"

section \<open>Verified properties\<close>

subsection \<open>Scenario A\<close>

lemma scenario_A_classify:
  "fallback_classify scenario_A None = (''Bug'', 0.9, ''bug trigger'')"
  by code_simp

lemma scenario_A_crash: "str_in ''crash'' (lower scenario_A)"
  by code_simp

lemma scenario_A_severity:
  "fallback_bug_analysis scenario_A p v =
     (''High'', ''Platform='' @ p @ ''; Version='' @ v @ ''; Summary='' @ scenario_A,
      ''rule-based severity'')"
  using scenario_A_crash
  by (simp add: fallback_bug_analysis_def Let_def) (simp add: scenario_A_def)

text \<open>
  C6. In fallback mode the text "App crashes on login, lost all my data" with no rating is
  classified as Bug with confidence 0.9, the bug analysis gives severity High, and the
  ticket built for a row carrying this text has priority High, which the critic keeps.
\<close>

theorem scenario_A_end_to_end:
  "fallback_classify scenario_A None = (''Bug'', 0.9, ''bug trigger'')
   \<and> fst (fallback_bug_analysis scenario_A p v) = ''High''
   \<and> (\<exists>t. row_to_ticket lib (g\<lparr>enabled := False\<rparr>) now
              (row\<lparr>review_text := Some scenario_A, rating := None\<rparr>) src = Inr t
          \<and> category t = PStr ''Bug'' \<and> confidence t = 0.9 \<and> priority t = ''High''
          \<and> critic_with_gemini lib (g\<lparr>enabled := False\<rparr>) (ticket_dict t)
              = Inr (ticket_dict t))"
proof -
  have ne: "scenario_A \<noteq> []" by (simp add: scenario_A_def)
  have cls: "classify_with_gemini lib (g\<lparr>enabled := False\<rparr>) scenario_A None
               = Inr (PStr ''Bug'', 0.9, PStr ''bug trigger'')"
    by (simp add: classify_with_gemini_def scenario_A_classify)
  have bug: "analyze_bug_with_gemini lib (g\<lparr>enabled := False\<rparr>) scenario_A pl ve
               = Inr (PStr ''High'',
                      PStr (''Platform='' @ pl @ ''; Version='' @ ve @ ''; Summary='' @ scenario_A),
                      PStr ''rule-based severity'')" for pl ve
    by (simp add: analyze_bug_with_gemini_def scenario_A_severity)
  have row: "\<exists>t. row_to_ticket lib (g\<lparr>enabled := False\<rparr>) now
              (row\<lparr>review_text := Some scenario_A, rating := None\<rparr>) src = Inr t
          \<and> category t = PStr ''Bug'' \<and> confidence t = 0.9 \<and> priority t = ''High''
          \<and> critic_with_gemini lib (g\<lparr>enabled := False\<rparr>) (ticket_dict t)
              = Inr (ticket_dict t)"
    by (simp add: row_to_ticket_def ne cls bug priority_of_severity_def compose_and_create_def
          compose_ticket_with_gemini_def slice_to_def create_ticket_def Let_def
          critic_with_gemini_def critic_fallback_def ticket_dict_def dict_get_def)
  show ?thesis using scenario_A_classify scenario_A_severity row by simp
qed

subsection \<open>Fallback classification\<close>

lemma spam_triggers_lower: "n \<in> set SPAM_TRIGGERS \<Longrightarrow> lower n = n"
  by (auto simp: SPAM_TRIGGERS_def lower_def lower_char_def)

lemma str_in_lower: "str_in n t \<Longrightarrow> str_in (lower n) (lower t)"
  by (simp add: str_in_def lower_def map_mono_sublist)

lemma contains_anyI: "n \<in> set needles \<Longrightarrow> str_in n (lower t) \<Longrightarrow> contains_any t needles"
  by (auto simp: contains_any_def list_ex_iff)

text \<open>
  C3. A text that contains a spam trigger, as written or after lower-casing, is classified
  as Spam with confidence 0.95, whatever else it contains and whatever the rating is.
\<close>

theorem spam_preempts:
  assumes "n \<in> set SPAM_TRIGGERS" and "str_in n s \<or> str_in n (lower s)"
  shows "fallback_classify s r = (''Spam'', 0.95, ''spam trigger'')"
proof -
  from assms have "str_in n (lower s)"
    using str_in_lower [of n s] spam_triggers_lower [of n] by auto
  with assms(1) have "contains_any s SPAM_TRIGGERS" by (rule contains_anyI)
  then show ?thesis by (simp add: fallback_classify_def)
qed

lemma noisy_spam_visit: "''visit'' \<in> set SPAM_TRIGGERS"
  by (simp add: SPAM_TRIGGERS_def)

lemma noisy_spam_has_visit: "str_in ''visit'' (lower noisy_spam)"
  by code_simp

lemma noisy_spam_other_triggers:
  "contains_any noisy_spam BUG_TRIGGERS \<and> contains_any noisy_spam FEATURE_TRIGGERS
   \<and> contains_any noisy_spam PRAISE_TRIGGERS \<and> contains_any noisy_spam COMPLAINT_TRIGGERS"
  by code_simp

theorem spam_preempts_witness:
  "''visit'' \<in> set SPAM_TRIGGERS \<and> str_in ''visit'' (lower noisy_spam)
   \<and> contains_any noisy_spam BUG_TRIGGERS \<and> contains_any noisy_spam FEATURE_TRIGGERS
   \<and> contains_any noisy_spam PRAISE_TRIGGERS \<and> contains_any noisy_spam COMPLAINT_TRIGGERS
   \<and> fallback_classify noisy_spam (Some 5) = (''Spam'', 0.95, ''spam trigger'')"
  using spam_preempts [of "''visit''" noisy_spam "Some 5"]
    noisy_spam_visit noisy_spam_has_visit noisy_spam_other_triggers
  by simp

lemma offline_disabled: "\<not> enabled offline"
  by (simp add: offline_def GeminiClient_init_def)

text \<open>
  C8. Fallback classification is a function of the text and the rating alone: equal inputs
  give equal triples, also through \<open>classify_with_gemini\<close> under any two clients without a
  backend and any two libraries.
\<close>

theorem fallback_classify_deterministic:
  assumes "text1 = text2" and "r1 = r2" and "\<not> enabled g1" and "\<not> enabled g2"
  shows "fallback_classify text1 r1 = fallback_classify text2 r2
         \<and> classify_with_gemini lib1 g1 text1 r1 = classify_with_gemini lib2 g2 text2 r2"
  using assms by (simp add: classify_with_gemini_def)

theorem fallback_classify_deterministic_witness:
  "\<not> enabled offline \<and> \<not> enabled (incomplete\<lparr>enabled := False\<rparr>)
   \<and> fallback_classify noisy_spam (Some 5) = fallback_classify noisy_spam (Some 5)
   \<and> classify_with_gemini stub_lib offline noisy_spam (Some 5)
       = classify_with_gemini silent_lib (incomplete\<lparr>enabled := False\<rparr>) noisy_spam (Some 5)"
  using fallback_classify_deterministic
          [of noisy_spam noisy_spam "Some 5" "Some 5" offline "incomplete\<lparr>enabled := False\<rparr>"
              stub_lib silent_lib]
        offline_disabled
  by simp

subsection \<open>The backend adapter\<close>

lemma strip_key: "strip ''key'' = ''key''"
  by code_simp

lemma strip_reply_without_keys: "strip reply_without_keys = reply_without_keys"
  by code_simp

lemma incomplete_simps:
  "enabled incomplete" "model incomplete = Some (\<lambda>p. Resp (Some reply_without_keys))"
  by (simp_all add: incomplete_def GeminiClient_init_def strip_key)

lemma incomplete_reply:
  "ask_json stub_lib incomplete sp uc = Inr (PDict [(''confidence'', PFloat 0.9)])"
  by (simp add: ask_json_def incomplete_simps strip_reply_without_keys stub_lib_def)

lemma unreachable_simps:
  "enabled unreachable"
  "model unreachable = Some (\<lambda>p. Raises (BackendError ''connection refused''))"
  by (simp_all add: unreachable_def GeminiClient_init_def strip_key)

text \<open>Once the backend has replied, \<open>ask_json\<close> returns; a reply that does not parse gives \<open>None\<close>.\<close>

lemma ask_json_reply_never_raises:
  assumes "model g = Some gen"
    and "gen (sp @ ''\<newline>\<newline>User Input:\<newline>'' @ uc @ ''\<newline>\<newline>Return a valid JSON only.'') = Resp t"
  shows "\<exists>v. ask_json lib g sp uc = Inr v"
  using assms by (auto simp: ask_json_def Let_def split: option.splits)

lemma ask_json_parse_failure:
  assumes "model g = Some gen"
    and "gen (sp @ ''\<newline>\<newline>User Input:\<newline>'' @ uc @ ''\<newline>\<newline>Return a valid JSON only.'') = Resp t"
    and "\<And>x. json_loads lib x = None"
  shows "ask_json lib g sp uc = Inr PNone"
  using assms by (auto simp: ask_json_def Let_def split: option.splits)

text \<open>
  C2. With a credential present, an exception raised by the remote call is not caught: it
  leaves \<open>ask_json\<close>.
\<close>

theorem ask_json_transport_failure_raises:
  "ask_json lib \<lparr>enabled = True, model_name = name, model = Some (\<lambda>prompt. Raises e)\<rparr> sp uc
     = Inl e"
  by (simp add: ask_json_def)

lemma unreachable_raises:
  "ask_json lib unreachable sp uc = Inl (BackendError ''connection refused'')"
  by (simp add: ask_json_def unreachable_simps)

lemma unreachable_classify:
  "classify_with_gemini lib unreachable s r = Inl (BackendError ''connection refused'')"
  by (simp add: classify_with_gemini_def unreachable_raises unreachable_simps Let_def)

subsection \<open>A reply without the required key\<close>

text \<open>
  C7. When the backend's reply parses to a dictionary that lacks the key the step requires
  (\<open>category\<close>, \<open>severity\<close>, \<open>impact\<close>; \<open>title\<close> or \<open>body\<close>), the step returns what it returns
  without a backend: the result of its fallback function.
\<close>

theorem missing_required_key_falls_back:
  "(ask_json lib g SYSTEM_CLASSIFIER (json_dumps lib (classify_payload s r)) = Inr (PDict d1)
      \<and> map_of d1 ''category'' = None
    \<longrightarrow> classify_with_gemini lib g s r = classify_with_gemini lib (g\<lparr>enabled := False\<rparr>) s r
        \<and> classify_with_gemini lib g s r
            = Inr (PStr (fst (fallback_classify s r)), fst (snd (fallback_classify s r)),
                   PStr (snd (snd (fallback_classify s r)))))
   \<and> (ask_json lib g SYSTEM_BUG_ANALYZER (json_dumps lib (bug_payload s p v)) = Inr (PDict d2)
      \<and> map_of d2 ''severity'' = None
    \<longrightarrow> analyze_bug_with_gemini lib g s p v
          = analyze_bug_with_gemini lib (g\<lparr>enabled := False\<rparr>) s p v
        \<and> analyze_bug_with_gemini lib g s p v
            = Inr (PStr (fst (fallback_bug_analysis s p v)),
                   PStr (fst (snd (fallback_bug_analysis s p v))),
                   PStr (snd (snd (fallback_bug_analysis s p v)))))
   \<and> (ask_json lib g SYSTEM_FEATURE_EXTRACTOR (json_dumps lib (feature_payload s)) = Inr (PDict d3)
      \<and> map_of d3 ''impact'' = None
    \<longrightarrow> extract_feature_with_gemini lib g s
          = extract_feature_with_gemini lib (g\<lparr>enabled := False\<rparr>) s
        \<and> extract_feature_with_gemini lib g s
            = Inr (PStr (fst (fallback_feature s)), PStr (fst (snd (fallback_feature s))),
                   PStr (snd (snd (fallback_feature s)))))
   \<and> (ask_json lib g SYSTEM_TICKET_CREATOR
         (json_dumps lib (compose_payload (PStr (take 120 th)) (PStr (take 500 bh)))) = Inr (PDict d4)
      \<and> (map_of d4 ''title'' = None \<or> map_of d4 ''body'' = None)
    \<longrightarrow> compose_ticket_with_gemini lib g (PStr th) (PStr bh)
          = compose_ticket_with_gemini lib (g\<lparr>enabled := False\<rparr>) (PStr th) (PStr bh)
        \<and> compose_ticket_with_gemini lib g (PStr th) (PStr bh)
            = Inr (PStr (take 80 th), PStr (take 400 bh)))"
proof (intro conjI impI)
  assume "ask_json lib g SYSTEM_CLASSIFIER (json_dumps lib (classify_payload s r)) = Inr (PDict d1)
      \<and> map_of d1 ''category'' = None"
  then show "classify_with_gemini lib g s r = classify_with_gemini lib (g\<lparr>enabled := False\<rparr>) s r"
    and "classify_with_gemini lib g s r
            = Inr (PStr (fst (fallback_classify s r)), fst (snd (fallback_classify s r)),
                   PStr (snd (snd (fallback_classify s r))))"
    by (simp_all add: classify_with_gemini_def Let_def split: prod.splits)
next
  assume "ask_json lib g SYSTEM_BUG_ANALYZER (json_dumps lib (bug_payload s p v)) = Inr (PDict d2)
      \<and> map_of d2 ''severity'' = None"
  then show "analyze_bug_with_gemini lib g s p v
               = analyze_bug_with_gemini lib (g\<lparr>enabled := False\<rparr>) s p v"
    and "analyze_bug_with_gemini lib g s p v
            = Inr (PStr (fst (fallback_bug_analysis s p v)),
                   PStr (fst (snd (fallback_bug_analysis s p v))),
                   PStr (snd (snd (fallback_bug_analysis s p v))))"
    by (simp_all add: analyze_bug_with_gemini_def Let_def split: prod.splits)
next
  assume "ask_json lib g SYSTEM_FEATURE_EXTRACTOR (json_dumps lib (feature_payload s)) = Inr (PDict d3)
      \<and> map_of d3 ''impact'' = None"
  then show "extract_feature_with_gemini lib g s
               = extract_feature_with_gemini lib (g\<lparr>enabled := False\<rparr>) s"
    and "extract_feature_with_gemini lib g s
            = Inr (PStr (fst (fallback_feature s)), PStr (fst (snd (fallback_feature s))),
                   PStr (snd (snd (fallback_feature s))))"
    by (simp_all add: extract_feature_with_gemini_def Let_def split: prod.splits)
next
  assume "ask_json lib g SYSTEM_TICKET_CREATOR
         (json_dumps lib (compose_payload (PStr (take 120 th)) (PStr (take 500 bh)))) = Inr (PDict d4)
      \<and> (map_of d4 ''title'' = None \<or> map_of d4 ''body'' = None)"
  then show "compose_ticket_with_gemini lib g (PStr th) (PStr bh)
          = compose_ticket_with_gemini lib (g\<lparr>enabled := False\<rparr>) (PStr th) (PStr bh)"
    and "compose_ticket_with_gemini lib g (PStr th) (PStr bh)
            = Inr (PStr (take 80 th), PStr (take 400 bh))"
    by (auto simp add: compose_ticket_with_gemini_def slice_to_def Let_def)
qed

theorem missing_required_key_falls_back_witness:
  "ask_json stub_lib incomplete SYSTEM_CLASSIFIER (json_dumps stub_lib (classify_payload scenario_A None))
     = Inr (PDict [(''confidence'', PFloat 0.9)])
   \<and> map_of [(''confidence'', PFloat 0.9)] ''category'' = None
   \<and> map_of [(''confidence'', PFloat 0.9)] ''severity'' = None
   \<and> map_of [(''confidence'', PFloat 0.9)] ''impact'' = None
   \<and> map_of [(''confidence'', PFloat 0.9)] ''title'' = None
   \<and> classify_with_gemini stub_lib incomplete scenario_A None
       = Inr (PStr ''Bug'', 0.9, PStr ''bug trigger'')
   \<and> analyze_bug_with_gemini stub_lib incomplete scenario_A ''iOS'' ''1.0''
       = analyze_bug_with_gemini stub_lib (incomplete\<lparr>enabled := False\<rparr>) scenario_A ''iOS'' ''1.0''
   \<and> extract_feature_with_gemini stub_lib incomplete scenario_A
       = extract_feature_with_gemini stub_lib (incomplete\<lparr>enabled := False\<rparr>) scenario_A
   \<and> compose_ticket_with_gemini stub_lib incomplete (PStr ''Praise'') (PStr ''Positive feedback'')
       = Inr (PStr ''Praise'', PStr ''Positive feedback'')"
proof -
  note w = missing_required_key_falls_back
          [of stub_lib incomplete scenario_A None "[(''confidence'', PFloat 0.9)]"
              "''iOS''" "''1.0''" "[(''confidence'', PFloat 0.9)]" "[(''confidence'', PFloat 0.9)]"
              "''Praise''" "''Positive feedback''" "[(''confidence'', PFloat 0.9)]"]
  have r: "ask_json stub_lib incomplete sp uc = Inr (PDict [(''confidence'', PFloat 0.9)])" for sp uc
    by (rule incomplete_reply)
  have k: "map_of [(''confidence'', PFloat 0.9)] ''category'' = None"
          "map_of [(''confidence'', PFloat 0.9)] ''severity'' = None"
          "map_of [(''confidence'', PFloat 0.9)] ''impact'' = None"
          "map_of [(''confidence'', PFloat 0.9)] ''title'' = None"
    by simp_all
  from w r k have c1: "classify_with_gemini stub_lib incomplete scenario_A None
            = Inr (PStr (fst (fallback_classify scenario_A None)), fst (snd (fallback_classify scenario_A None)),
                   PStr (snd (snd (fallback_classify scenario_A None))))"
    by blast
  from w r k have c2: "analyze_bug_with_gemini stub_lib incomplete scenario_A ''iOS'' ''1.0''
       = analyze_bug_with_gemini stub_lib (incomplete\<lparr>enabled := False\<rparr>) scenario_A ''iOS'' ''1.0''"
    by blast
  from w r k have c3: "extract_feature_with_gemini stub_lib incomplete scenario_A
       = extract_feature_with_gemini stub_lib (incomplete\<lparr>enabled := False\<rparr>) scenario_A"
    by blast
  from w r k have c4: "compose_ticket_with_gemini stub_lib incomplete (PStr ''Praise'') (PStr ''Positive feedback'')
       = Inr (PStr (take 80 ''Praise''), PStr (take 400 ''Positive feedback''))"
    by blast
  have c1': "classify_with_gemini stub_lib incomplete scenario_A None
       = Inr (PStr ''Bug'', 0.9, PStr ''bug trigger'')"
    using c1 by (simp add: scenario_A_classify)
  have c4': "compose_ticket_with_gemini stub_lib incomplete (PStr ''Praise'') (PStr ''Positive feedback'')
       = Inr (PStr ''Praise'', PStr ''Positive feedback'')"
    using c4 by simp
  show ?thesis using r k c1' c2 c3 c4' by blast
qed

subsection \<open>The critic's fallback rule\<close>

lemma dict_get_update:
  "dict_get (AList.update k v d) k' dflt = (if k' = k then v else dict_get d k' dflt)"
  by (simp add: dict_get_def update_conv')

lemma dict_get_present: "dict_get d k PNone \<noteq> PNone \<Longrightarrow> k \<in> fst ` set d"
  by (force simp: dict_get_def split: option.splits dest: map_of_SomeD)

lemma keys_update_present: "k \<in> fst ` set d \<Longrightarrow> map fst (AList.update k v d) = map fst d"
  by (simp add: update_keys)

lemma critic_fallback_forced:
  assumes "dict_get t ''category'' PNone \<in> set [PStr ''Spam'', PStr ''Praise'']"
    and "dict_get t ''priority'' PNone \<in> set [PStr ''High'', PStr ''Critical'']"
  shows "critic_fallback t = AList.update ''priority'' (PStr ''Low'') t"
    and "dict_get (critic_fallback t) ''priority'' PNone = PStr ''Low''"
    and "critic_fallback t \<noteq> t"
proof -
  show 1: "critic_fallback t = AList.update ''priority'' (PStr ''Low'') t"
    using assms by (simp add: critic_fallback_def)
  show 2: "dict_get (critic_fallback t) ''priority'' PNone = PStr ''Low''"
    by (simp add: 1 dict_get_update)
  from assms(2) have "dict_get t ''priority'' PNone \<noteq> PStr ''Low''" by auto
  with 2 show "critic_fallback t \<noteq> t" by auto
qed

lemma critic_fallback_kept:
  assumes "\<not> (dict_get t ''category'' PNone \<in> set [PStr ''Spam'', PStr ''Praise'']
              \<and> dict_get t ''priority'' PNone \<in> set [PStr ''High'', PStr ''Critical''])"
  shows "critic_fallback t = t"
  using assms by (auto simp: critic_fallback_def)

lemma critic_fallback_compliant:
  "\<not> (dict_get (critic_fallback t) ''category'' PNone \<in> set [PStr ''Spam'', PStr ''Praise'']
       \<and> dict_get (critic_fallback t) ''priority'' PNone \<in> set [PStr ''High'', PStr ''Critical''])"
  by (simp add: critic_fallback_def dict_get_update)

lemma critic_fallback_idem: "critic_fallback (critic_fallback t) = critic_fallback t"
  using critic_fallback_compliant [of t] by (rule critic_fallback_kept)

lemma critic_fallback_frame: "k \<noteq> ''priority'' \<Longrightarrow> map_of (critic_fallback t) k = map_of t k"
  by (simp add: critic_fallback_def update_conv')

lemma critic_fallback_keys: "map fst (critic_fallback t) = map fst t"
proof (cases "dict_get t ''priority'' PNone \<in> set [PStr ''High'', PStr ''Critical'']")
  case True
  then have "dict_get t ''priority'' PNone \<noteq> PNone" by auto
  then have "''priority'' \<in> fst ` set t" by (rule dict_get_present)
  then show ?thesis by (simp add: critic_fallback_def keys_update_present)
next
  case False
  then show ?thesis by (simp add: critic_fallback_def)
qed

lemma critic_without_backend: "\<not> enabled g \<Longrightarrow> critic_with_gemini lib g t = Inr (critic_fallback t)"
  by (simp add: critic_with_gemini_def)

lemma compose_and_create_fields:
  "compose_and_create lib g now row src cat conf prio th d = Inr t
   \<Longrightarrow> category t = cat \<and> priority t = prio \<and> confidence t = conf"
  by (auto simp: compose_and_create_def create_ticket_def Let_def split: sum.splits prod.splits)

lemma row_to_ticket_spam_praise_low:
  assumes "row_to_ticket lib g now row src = Inr t"
    and "category t \<in> set [PStr ''Spam'', PStr ''Praise'']"
  shows "priority t = ''Low''"
  using assms
  by (auto simp: row_to_ticket_def Let_def split: sum.splits prod.splits if_splits
           dest!: compose_and_create_fields)

lemma ticket_dict_get:
  "dict_get (ticket_dict t) ''category'' PNone = category t"
  "dict_get (ticket_dict t) ''priority'' PNone = PStr (priority t)"
  by (simp_all add: ticket_dict_def dict_get_def)

lemma critic_fallback_delete:
  "AList.delete ''priority'' (critic_fallback t) = AList.delete ''priority'' t"
  by (simp add: critic_fallback_def delete_update_same)

lemma critic_fallback_ref_eq:
  "critic_fallback_ref h a = (length h, h @ [critic_fallback (h ! a)])"
  by (simp add: critic_fallback_ref_def dict_copy_def dict_setitem_def critic_fallback_def)

text \<open>
  C1, as the code has it. Without a backend the critic returns a ticket that is never Spam
  or Praise with priority High or Critical: it sets the priority to Low exactly when the
  category is Spam or Praise and the priority is High or Critical, and returns the ticket
  unchanged otherwise, so that a Spam ticket arriving with Medium keeps Medium. A ticket
  that \<open>row_to_ticket\<close> built with category Spam or Praise has priority Low already and
  passes the critic unchanged.
\<close>

theorem critic_forbids_high_for_spam_praise:
  assumes "\<not> enabled g"
  shows "\<exists>t'. critic_with_gemini lib g t = Inr t'
           \<and> \<not> (dict_get t' ''category'' PNone \<in> set [PStr ''Spam'', PStr ''Praise'']
                \<and> dict_get t' ''priority'' PNone \<in> set [PStr ''High'', PStr ''Critical''])
           \<and> (dict_get t ''category'' PNone \<in> set [PStr ''Spam'', PStr ''Praise'']
                \<and> dict_get t ''priority'' PNone \<in> set [PStr ''High'', PStr ''Critical'']
              \<longrightarrow> t' = AList.update ''priority'' (PStr ''Low'') t
                  \<and> dict_get t' ''priority'' PNone = PStr ''Low'' \<and> t' \<noteq> t)
           \<and> (\<not> (dict_get t ''category'' PNone \<in> set [PStr ''Spam'', PStr ''Praise'']
                  \<and> dict_get t ''priority'' PNone \<in> set [PStr ''High'', PStr ''Critical''])
              \<longrightarrow> t' = t)
           \<and> (\<forall>tk. row_to_ticket lib g now row src = Inr tk
                     \<and> category tk \<in> set [PStr ''Spam'', PStr ''Praise'']
                 \<longrightarrow> priority tk = ''Low''
                     \<and> critic_with_gemini lib g (ticket_dict tk) = Inr (ticket_dict tk))"
proof -
  have run: "critic_with_gemini lib g x = Inr (critic_fallback x)" for x
    using assms by (rule critic_without_backend)
  have pipeline: "priority tk = ''Low'' \<and> critic_with_gemini lib g (ticket_dict tk) = Inr (ticket_dict tk)"
    if "row_to_ticket lib g now row src = Inr tk"
      and "category tk \<in> set [PStr ''Spam'', PStr ''Praise'']" for tk
  proof -
    from that have low: "priority tk = ''Low''" by (rule row_to_ticket_spam_praise_low)
    then have "critic_fallback (ticket_dict tk) = ticket_dict tk"
      by (intro critic_fallback_kept) (simp add: ticket_dict_get)
    with low show ?thesis by (simp add: run)
  qed
  show ?thesis
    using critic_fallback_compliant [of t] critic_fallback_forced [of t] critic_fallback_kept [of t]
      pipeline
    by (simp add: run)
qed

text \<open>
  C9. Without a backend, the critic applied to its own result returns that result, and a
  ticket that is not Spam or Praise with priority High or Critical is returned as it is.
\<close>

theorem critic_fallback_idempotent:
  assumes "\<not> enabled g"
  shows "\<exists>t1. critic_with_gemini lib g t = Inr t1 \<and> critic_with_gemini lib g t1 = Inr t1
           \<and> (\<not> (dict_get t ''category'' PNone \<in> set [PStr ''Spam'', PStr ''Praise'']
                  \<and> dict_get t ''priority'' PNone \<in> set [PStr ''High'', PStr ''Critical''])
              \<longrightarrow> t1 = t)"
  using assms critic_fallback_kept [of t]
  by (simp add: critic_without_backend critic_fallback_idem)

text \<open>
  C10. Without a backend, the critic returns a reference that was not in the store before,
  every dictionary that was in the store is as it was (the input ticket among them), and
  the new dictionary has the keys of the input in the same order with the same values,
  the value of \<open>priority\<close> apart.
\<close>

theorem critic_fallback_copies:
  assumes "\<not> enabled g" and "a < length h"
  shows "\<exists>r h'. critic_with_gemini_ref lib g h a = Inr (r, h')
           \<and> r = length h \<and> take (length h) h' = h \<and> h' ! a = h ! a
           \<and> critic_with_gemini lib g (h ! a) = Inr (h' ! r)
           \<and> AList.delete ''priority'' (h' ! r) = AList.delete ''priority'' (h ! a)
           \<and> map fst (h' ! r) = map fst (h ! a)"
  using assms
  by (simp add: critic_with_gemini_ref_def critic_fallback_ref_eq critic_without_backend
        critic_fallback_delete critic_fallback_keys nth_append)

lemma critic_ok_returns_ticket_itself:
  assumes "enabled g"
    and "ask_json lib g SYSTEM_CRITIC (json_dumps lib (PDict (h ! a))) = Inr (PDict d)"
    and "map_of d ''ok'' = Some (PBool True)"
  shows "critic_with_gemini_ref lib g h a = Inr (a, h)"
  using assms by (simp add: critic_with_gemini_ref_def)

lemma praise_critical_fields:
  "dict_get praise_critical ''category'' PNone = PStr ''Praise''"
  "dict_get praise_critical ''priority'' PNone = PStr ''Critical''"
  by code_simp+

lemma spam_medium_fields:
  "dict_get spam_medium ''category'' PNone = PStr ''Spam''"
  "dict_get spam_medium ''priority'' PNone = PStr ''Medium''"
  by code_simp+

lemma scenario_C_ticket:
  "row_to_ticket stub_lib offline (noon 0) scenario_C ''App Store Review''
     = Inr (create_ticket (noon 0) ''17'' ''App Store Review'' (PStr ''Spam'') ''Low''
              (PStr ''Spam'') (PStr ''Likely spam'') 0.95 '''')"
  by code_simp

text \<open>
  C1 as stated fails. Without a backend, a Spam ticket with priority Medium leaves the
  critic with priority Medium. With a backend that answers the critic's prompt by
  \<open>{"priority": "High"}\<close>, the row of scenario C ends as a Spam ticket with priority High.
\<close>

theorem critic_keeps_medium_and_backend_overrides:
  "dict_get spam_medium ''category'' PNone = PStr ''Spam''
   \<and> dict_get spam_medium ''priority'' PNone = PStr ''Medium''
   \<and> critic_with_gemini stub_lib offline spam_medium = Inr spam_medium
   \<and> process_rows stub_lib overriding noon ''App Store Review'' [scenario_C] ([], [])
       = Inr ([[(''ticket_id'', PStr ''T17''), (''source_id'', PStr ''17''),
                (''source_type'', PStr ''App Store Review''),
                (''category'', PStr ''Spam''), (''priority'', PStr ''High''),
                (''title'', PStr ''Spam''), (''technical_details'', PStr ''Likely spam''),
                (''created_at'', PStr ''2024-01-01 12:00:00''),
                (''confidence'', PFloat 0.95), (''link_back'', PStr '''')]],
              [[(''source_id'', PStr ''17''), (''source_type'', PStr ''App Store Review''),
                (''category'', PStr ''Spam''), (''priority'', PStr ''High''),
                (''confidence'', PFloat 0.95)]])"
  by code_simp

theorem critic_forbids_high_for_spam_praise_witness:
  "\<not> enabled offline
   \<and> dict_get praise_critical ''category'' PNone = PStr ''Praise''
   \<and> dict_get praise_critical ''priority'' PNone = PStr ''Critical''
   \<and> critic_with_gemini stub_lib offline praise_critical
       = Inr (AList.update ''priority'' (PStr ''Low'') praise_critical)
   \<and> dict_get spam_medium ''priority'' PNone = PStr ''Medium''
   \<and> critic_with_gemini stub_lib offline spam_medium = Inr spam_medium
   \<and> row_to_ticket stub_lib offline (noon 0) scenario_C ''App Store Review''
       = Inr (create_ticket (noon 0) ''17'' ''App Store Review'' (PStr ''Spam'') ''Low''
                (PStr ''Spam'') (PStr ''Likely spam'') 0.95 '''')
   \<and> critic_with_gemini stub_lib offline
         (ticket_dict (create_ticket (noon 0) ''17'' ''App Store Review'' (PStr ''Spam'') ''Low''
                         (PStr ''Spam'') (PStr ''Likely spam'') 0.95 ''''))
       = Inr (ticket_dict (create_ticket (noon 0) ''17'' ''App Store Review'' (PStr ''Spam'') ''Low''
                             (PStr ''Spam'') (PStr ''Likely spam'') 0.95 ''''))"
proof -
  let ?tk = "create_ticket (noon 0) ''17'' ''App Store Review'' (PStr ''Spam'') ''Low''
               (PStr ''Spam'') (PStr ''Likely spam'') 0.95 ''''"
  have cat: "category ?tk \<in> set [PStr ''Spam'', PStr ''Praise'']"
    by (simp add: create_ticket_def)
  from critic_forbids_high_for_spam_praise
         [OF offline_disabled, of stub_lib praise_critical "noon 0" scenario_C "''App Store Review''"]
  obtain t1 where t1: "critic_with_gemini stub_lib offline praise_critical = Inr t1"
    and f1: "dict_get praise_critical ''category'' PNone \<in> set [PStr ''Spam'', PStr ''Praise'']
             \<and> dict_get praise_critical ''priority'' PNone \<in> set [PStr ''High'', PStr ''Critical'']
             \<longrightarrow> t1 = AList.update ''priority'' (PStr ''Low'') praise_critical"
    and p1: "row_to_ticket stub_lib offline (noon 0) scenario_C ''App Store Review'' = Inr ?tk
             \<and> category ?tk \<in> set [PStr ''Spam'', PStr ''Praise'']
             \<longrightarrow> critic_with_gemini stub_lib offline (ticket_dict ?tk) = Inr (ticket_dict ?tk)"
    by blast
  from critic_forbids_high_for_spam_praise
         [OF offline_disabled, of stub_lib spam_medium "noon 0" scenario_C "''App Store Review''"]
  obtain t2 where t2: "critic_with_gemini stub_lib offline spam_medium = Inr t2"
    and f2: "\<not> (dict_get spam_medium ''category'' PNone \<in> set [PStr ''Spam'', PStr ''Praise'']
                \<and> dict_get spam_medium ''priority'' PNone \<in> set [PStr ''High'', PStr ''Critical''])
             \<longrightarrow> t2 = spam_medium"
    by blast
  have a: "critic_with_gemini stub_lib offline praise_critical
             = Inr (AList.update ''priority'' (PStr ''Low'') praise_critical)"
    using t1 f1 by (simp add: praise_critical_fields)
  have b: "critic_with_gemini stub_lib offline spam_medium = Inr spam_medium"
    using t2 f2 by (simp add: spam_medium_fields)
  have c: "critic_with_gemini stub_lib offline (ticket_dict ?tk) = Inr (ticket_dict ?tk)"
    using p1 scenario_C_ticket cat by blast
  show ?thesis
    using offline_disabled praise_critical_fields spam_medium_fields(2) a b c scenario_C_ticket
    by blast
qed

theorem critic_fallback_idempotent_witness:
  "\<not> enabled offline
   \<and> critic_with_gemini stub_lib offline praise_critical
       = Inr (AList.update ''priority'' (PStr ''Low'') praise_critical)
   \<and> critic_with_gemini stub_lib offline (AList.update ''priority'' (PStr ''Low'') praise_critical)
       = Inr (AList.update ''priority'' (PStr ''Low'') praise_critical)
   \<and> dict_get spam_medium ''priority'' PNone = PStr ''Medium''
   \<and> critic_with_gemini stub_lib offline spam_medium = Inr spam_medium"
proof -
  have a: "critic_with_gemini stub_lib offline praise_critical
             = Inr (AList.update ''priority'' (PStr ''Low'') praise_critical)"
    by code_simp
  from critic_fallback_idempotent [OF offline_disabled, of stub_lib praise_critical] a
  have twice: "critic_with_gemini stub_lib offline (AList.update ''priority'' (PStr ''Low'') praise_critical)
       = Inr (AList.update ''priority'' (PStr ''Low'') praise_critical)"
    by auto
  from critic_fallback_idempotent [OF offline_disabled, of stub_lib spam_medium]
  have b: "critic_with_gemini stub_lib offline spam_medium = Inr spam_medium"
    by (auto simp: spam_medium_fields)
  show ?thesis using offline_disabled a twice b spam_medium_fields(2) by blast
qed

theorem critic_fallback_copies_witness:
  "\<not> enabled offline \<and> (0::nat) < length [praise_critical]
   \<and> critic_with_gemini_ref stub_lib offline [praise_critical] 0
       = Inr (1, [praise_critical, AList.update ''priority'' (PStr ''Low'') praise_critical])
   \<and> AList.delete ''priority'' (AList.update ''priority'' (PStr ''Low'') praise_critical)
       = AList.delete ''priority'' praise_critical"
proof -
  have a: "critic_with_gemini stub_lib offline praise_critical
             = Inr (AList.update ''priority'' (PStr ''Low'') praise_critical)"
    by code_simp
  have len: "(0::nat) < length [praise_critical]" by simp
  from critic_fallback_copies [OF offline_disabled len, of stub_lib]
  obtain r h' where run: "critic_with_gemini_ref stub_lib offline [praise_critical] 0 = Inr (r, h')"
    and r: "r = length [praise_critical]" and pre: "take (length [praise_critical]) h' = [praise_critical]"
    and res: "critic_with_gemini stub_lib offline ([praise_critical] ! 0) = Inr (h' ! r)"
    and del: "AList.delete ''priority'' (h' ! r) = AList.delete ''priority'' ([praise_critical] ! 0)"
    by blast
  have "critic_with_gemini_ref stub_lib offline [praise_critical] 0
       = Inr (1, [praise_critical, AList.update ''priority'' (PStr ''Low'') praise_critical])"
    by code_simp
  with run r res del a show ?thesis using offline_disabled by simp
qed

subsection \<open>Metrics\<close>

lemma metric_keys:
  "metric_key ''Bug'' = ''bug''" "metric_key ''Feature Request'' = ''feature_request''"
  "metric_key ''Praise'' = ''praise''" "metric_key ''Complaint'' = ''complaint''"
  "metric_key ''Spam'' = ''spam''" "metric_key ''Other'' = ''other''"
  by code_simp+

lemma columns_DataFrame_empty: "columns (DataFrame []) = []" "rows (DataFrame []) = []"
  by (simp_all add: DataFrame_def)


lemma rows_DataFrame: "rows (DataFrame rs) = rs"
  by (simp add: DataFrame_def)

lemma count_categories_six:
  assumes "''category'' \<in> set (columns df)"
  shows "count_categories df
           [''Bug'', ''Feature Request'', ''Praise'', ''Complaint'', ''Spam'', ''Other'']
           [(''total_items'', n)]
         = Inr [(''total_items'', n), (''bug'', category_count df ''Bug''),
                (''feature_request'', category_count df ''Feature Request''),
                (''praise'', category_count df ''Praise''),
                (''complaint'', category_count df ''Complaint''),
                (''spam'', category_count df ''Spam''), (''other'', category_count df ''Other'')]"
  using assms by (simp add: column_def metric_keys category_count_def)

lemma count_categories_KeyError:
  assumes "''category'' \<notin> set (columns df)"
  shows "count_categories df (k # ks) m = Inl (KeyError ''category'')"
  using assms by (simp add: column_def)

lemma compute_metrics_no_category_column:
  assumes "''category'' \<notin> set (columns df)"
  shows "compute_metrics df expected = Inl (KeyError ''category'')"
  unfolding compute_metrics_def Let_def count_categories_KeyError [OF assms]
  by simp

lemma compute_metrics_unfold:
  assumes "''category'' \<in> set (columns df)"
  shows "compute_metrics df expected =
     (case avg_confidence df of
        Inl e \<Rightarrow> Inl e
      | Inr avg \<Rightarrow>
          (case expected of
             None \<Rightarrow> Inr (DataFrame [base_metrics df avg])
           | Some ex \<Rightarrow>
               if ''category'' \<in> set (columns ex) then
                 (case merge df ex ''source_id'' '''' ''_expected'' of
                    Inl e \<Rightarrow> Inl e
                  | Inr merged \<Rightarrow>
                      if ''category_expected'' \<in> set (columns merged) then
                        (case category_accuracy merged of
                           Inl e \<Rightarrow> Inl e
                         | Inr acc \<Rightarrow>
                             Inr (DataFrame [base_metrics df avg @ [(''category_accuracy'', PFloat acc)]]))
                      else Inr (DataFrame [base_metrics df avg]))
               else Inr (DataFrame [base_metrics df avg])))"
  unfolding compute_metrics_def Let_def count_categories_six [OF assms] avg_confidence_def
  by (simp add: base_metrics_def split: sum.splits option.splits)















lemma avg_confidence_no_rows: "rows df = [] \<Longrightarrow> avg_confidence df = Inr 0"
  by (simp add: avg_confidence_def)




text \<open>
  C5. The log that \<open>main\<close> builds from no feedback rows is \<open>pd.DataFrame([])\<close>, which has no
  columns: \<open>compute_metrics\<close> raises \<open>KeyError\<close> at the first read of the category column, and
  so does \<open>main\<close> when both input tables are empty or absent.
\<close>

theorem empty_log_raises:
  "compute_metrics (DataFrame []) expected = Inl (KeyError ''category'')
   \<and> main lib g clock [] [] expected = Inl (KeyError ''category'')"
  by (simp add: compute_metrics_no_category_column main_def columns_DataFrame_empty)

lemma compute_metrics_total_items:
  assumes "compute_metrics df expected = Inr out"
  shows "\<exists>m. rows out = [m] \<and> map_of m ''total_items'' = Some (PInt (int (length (rows df))))"
proof -
  have cat: "''category'' \<in> set (columns df)"
    using assms compute_metrics_no_category_column [of df expected] by auto
  have t: "map_of (base_metrics df avg) ''total_items'' = Some (PInt (int (length (rows df))))"
    "map_of (base_metrics df avg @ [(''category_accuracy'', v)]) ''total_items''
       = Some (PInt (int (length (rows df))))" for avg v
    by (simp_all add: base_metrics_def)
  from assms show ?thesis
    unfolding compute_metrics_unfold [OF cat]
    by (auto simp: rows_DataFrame t split: sum.splits option.splits if_splits)
qed

lemma compute_metrics_no_rows:
  assumes "''category'' \<in> set (columns df)" and "rows df = []"
  shows "compute_metrics df None
         = Inr (DataFrame [[(''total_items'', PInt 0), (''bug'', PInt 0), (''feature_request'', PInt 0),
                            (''praise'', PInt 0), (''complaint'', PInt 0), (''spam'', PInt 0),
                            (''other'', PInt 0), (''avg_confidence'', PFloat 0)]])"
  using assms
  by (simp add: compute_metrics_unfold avg_confidence_no_rows base_metrics_def category_count_def)




text \<open>
  A reference whose identifiers were read as integers does not join a log whose
  identifiers are strings: \<open>merge\<close> raises and so does \<open>compute_metrics\<close>.
\<close>

lemma numeric_ids_raise:
  "compute_metrics log_two (Some expected_numeric_ids) = Inl ValueError"
  by code_simp





lemma log_no_rows_metrics:
  "compute_metrics log_no_rows None
     = Inr (DataFrame [[(''total_items'', PInt 0), (''bug'', PInt 0), (''feature_request'', PInt 0),
                        (''praise'', PInt 0), (''complaint'', PInt 0), (''spam'', PInt 0),
                        (''other'', PInt 0), (''avg_confidence'', PFloat 0)]])"
  by (rule compute_metrics_no_rows) (simp_all add: log_no_rows_def)
end
